theory Spec2Isabelle
  imports Complex_Main "HOL-Library.Multiset"
begin

section \<open>Values, errors and the parameter store\<close>

text \<open>
  GUFY keeps its whole session state in flat Python dictionaries (\<open>Param_Dict\<close>,
  \<open>Request_Dict\<close>, \<open>Config_Dict\<close>) from string keys to heterogeneous values. A
  dictionary is a map from keys to values; a subscript on a missing key raises
  \<open>KeyError\<close>, which is a branch of the model. \<open>DataSet path\<close> is the object
  \<open>yt.load(path)\<close> returns.
\<close>

datatype pyval = Num real | Str string | Bool bool | PNone | DataSet string

datatype error =
    KeyError string
  | IndexError
  | ZeroDivisionError
  | ValueError string
  | NameError string

type_synonym store = "string \<rightharpoonup> pyval"

text \<open>Sequencing of fallible computations: the first raise wins.\<close>

definition bindE :: "error + 'a \<Rightarrow> ('a \<Rightarrow> error + 'b) \<Rightarrow> error + 'b" where
  "bindE m f = (case m of Inl e \<Rightarrow> Inl e | Inr x \<Rightarrow> f x)"

text \<open>\<open>Param_Dict[key]\<close>.\<close>

definition lookup :: "store \<Rightarrow> string \<Rightarrow> error + pyval" where
  "lookup P k = (case P k of None \<Rightarrow> Inl (KeyError k) | Some v \<Rightarrow> Inr v)"

text \<open>\<open>[Param_Dict[key] for key in keys]\<close>: the keys are read left to right.\<close>

fun lookups :: "store \<Rightarrow> string list \<Rightarrow> error + pyval list" where
  "lookups P [] = Inr []"
| "lookups P (k # ks) =
     bindE (lookup P k) (\<lambda>v. bindE (lookups P ks) (\<lambda>vs. Inr (v # vs)))"

section \<open>utils.py: general helper functions\<close>



section \<open>utils.py: functions for line drawing\<close>

text \<open>GUILogger records: the level and the message.\<close>

datatype logrec =
    LogDebug string
  | LogInfo string
  | Log29 string
  | LogWarning string
  | LogError string
  | LogException string
  | LogCritical string

definition starts :: "string list" where
  "starts = [''XLStart'', ''YLStart'', ''ZLStart'']"

definition ends :: "string list" where
  "ends = [''XLEnd'', ''YLEnd'', ''ZLEnd'']"

text \<open>\<open>values.append(values.pop(0))\<close>; \<open>pop\<close> on an empty list raises \<open>IndexError\<close>.\<close>

definition pop0_append :: "'a list \<Rightarrow> error + 'a list" where
  "pop0_append vs = (case vs of [] \<Rightarrow> Inl IndexError | v # r \<Rightarrow> Inr (r @ [v]))"

text \<open>\<open>values[i]\<close> for a non-negative index.\<close>

definition nth_py :: "'a list \<Rightarrow> nat \<Rightarrow> error + 'a" where
  "nth_py vs i = (if i < length vs then Inr (vs ! i) else Inl IndexError)"

text \<open>
  The closing loop of \<open>shuffleCoords\<close>:
  \<^verbatim>\<open>
  for i in range(3):
      Param_Dict[starts[i]] = svalues[i]
      Param_Dict[ends[i]] = evalues[i]
  \<close>
\<close>

fun store_back :: "pyval list \<Rightarrow> pyval list \<Rightarrow> nat list \<Rightarrow> store \<Rightarrow> error + store" where
  "store_back svalues evalues [] P = Inr P"
| "store_back svalues evalues (i # is) P =
     bindE (nth_py starts i) (\<lambda>sk.
     bindE (nth_py svalues i) (\<lambda>sv.
     bindE (nth_py ends i) (\<lambda>ek.
     bindE (nth_py evalues i) (\<lambda>ev.
       store_back svalues evalues is (P(sk \<mapsto> sv, ek \<mapsto> ev))))))"

text \<open>
  \<^verbatim>\<open>
  def shuffleCoords(Param_Dict):
      starts = ["XLStart", "YLStart", "ZLStart"]
      ends = ["XLEnd", "YLEnd", "ZLEnd"]
      svalues = [Param_Dict[key] for key in starts]
      evalues = [Param_Dict[key] for key in ends]
      if Param_Dict["NAxis"] == "x":
          svalues.append(svalues.pop(0)); evalues.append(evalues.pop(0))
          svalues.append(svalues.pop(0)); evalues.append(evalues.pop(0))
      elif Param_Dict["NAxis"] == "y":
          svalues.append(svalues.pop(0)); evalues.append(evalues.pop(0))
      elif Param_Dict["NAxis"] == "z":
          pass
      else:
          GUILogger.error("Something went wrong ...")
      for i in range(3): ...
  \<close>
  The result is the updated store together with the records logged.
\<close>

definition shuffleCoords :: "store \<Rightarrow> error + (store \<times> logrec list)" where
  "shuffleCoords P =
     bindE (lookups P starts) (\<lambda>svalues.
     bindE (lookups P ends) (\<lambda>evalues.
     bindE (lookup P ''NAxis'') (\<lambda>naxis.
     bindE
       (if naxis = Str ''x'' then
          bindE (pop0_append svalues) (\<lambda>s1.
          bindE (pop0_append evalues) (\<lambda>e1.
          bindE (pop0_append s1) (\<lambda>s2.
          bindE (pop0_append e1) (\<lambda>e2. Inr (s2, e2, [])))))
        else if naxis = Str ''y'' then
          bindE (pop0_append svalues) (\<lambda>s1.
          bindE (pop0_append evalues) (\<lambda>e1. Inr (s1, e1, [])))
        else if naxis = Str ''z'' then Inr (svalues, evalues, [])
        else Inr (svalues, evalues,
          [LogError ''Something went wrong when transferring the coordinates to LinePlot'']))
       (\<lambda>(svalues', evalues', lg).
          bindE (store_back svalues' evalues' [0, 1, 2] P) (\<lambda>P'. Inr (P', lg))))))"

text \<open>A parameter store with a line drawn while the normal axis is \<open>x\<close>.\<close>

definition demo_store :: store where
  "demo_store = [''XLStart'' \<mapsto> Num 1, ''YLStart'' \<mapsto> Num 2, ''ZLStart'' \<mapsto> Num 3,
     ''XLEnd'' \<mapsto> Num 4, ''YLEnd'' \<mapsto> Num 5, ''ZLEnd'' \<mapsto> Num 6,
     ''NAxis'' \<mapsto> Str ''x'', ''PlotMode'' \<mapsto> Str ''Slice'']"

section \<open>Python string operations\<close>

text \<open>
  Strings are byte lists. \<open>str.lower\<close> is modelled on ASCII letters, which is all the
  option names and boolean words of the configuration use.
\<close>

definition lower_char :: "char \<Rightarrow> char" where
  "lower_char c =
     (let n = (of_char c :: nat) in if 65 \<le> n \<and> n \<le> 90 then char_of (n + 32) else c)"

definition lower :: "string \<Rightarrow> string" where
  "lower s = map lower_char s"


section \<open>configureGUI.py: the configuration dialog and the INI parser\<close>





















section \<open>Decimal numerals in messages and file names\<close>

text \<open>\<open>str(n)\<close> for an integer, as the f-strings of the program format it.\<close>

definition digit_char :: "nat \<Rightarrow> char" where
  "digit_char d = char_of (48 + d)"

function str_nat :: "nat \<Rightarrow> string" where
  "str_nat n = (if n < 10 then [digit_char n] else str_nat (n div 10) @ [digit_char (n mod 10)])"
  by pat_completeness auto
termination
  by (relation "measure id") auto

definition str_int :: "int \<Rightarrow> string" where
  "str_int i = (if i < 0 then CHR ''-'' # str_nat (nat (- i)) else str_nat (nat i))"

section \<open>threading.py, plots.py, plotWindow.py: plot evaluation in a worker\<close>

text \<open>
  A plot is evaluated by a worker object living in a second thread. The worker's entry
  point \<open>plot\<close> calls \<open>evaluateSingle\<close> or \<open>evaluateMultiple\<close>, which call the plot
  functions of \<open>plots.py\<close> and the methods of the current plot window. All of these
  are straight-line sequences of
  \<^item> named progress checkpoints (\<open>sut.emitStatus\<close>, \<open>sut.emitMultiStatus\<close>),
  \<^item> logger calls, and
  \<^item> calls into yt, matplotlib and Qt and assignments to the plot window, and
  \<^item> the places where the Python runtime itself raises (\<open>Raise\<close>, with the type
    name and the text of the exception),
  so a run of the worker is a list of such actions. The cancel button of the progress
  dialog runs \<open>stopProcess\<close> on the UI thread; in a run it appears between the two
  worker actions it happens to fall between.

  Exceptions are the class \<open>WorkingException\<close> of \<open>utils.py\<close>, with its arguments,
  and any other subclass of \<open>Exception\<close>, with its type name and text.
\<close>

datatype exn = WorkingException "string list" | Exception string string

text \<open>A plot object: which plot function made it, and of which dataset of the series.\<close>

datatype plotobj = PlotObj string nat

text \<open>
  The figure of a plot window: as created, cleared with fresh axes (\<open>prepareFigure\<close>),
  or holding the artists of a plot (\<open>plot._setup_plots()\<close>).
\<close>

datatype figure = Blank | EmptyAxes | Drawing plotobj

text \<open>
  The state of a \<open>PlotWindow\<close>: the attribute \<open>plot\<close>, the figure, what the canvas
  rendered at its last \<open>draw()\<close>, \<open>hasProfile\<close>, the plot whose parameters
  \<open>copyParamDict\<close> stored in the attribute \<open>Param_Dict\<close>, whether the three buttons
  are enabled, and whether the window is shown.
\<close>

record plot_window =
  plot :: "plotobj option"
  figure :: figure
  canvas :: figure
  hasProfile :: bool
  stored_params :: "plotobj option"
  restoreSettings :: bool
  writeFileButton :: bool
  externalWindowButton :: bool
  visible :: bool

datatype call =
    Library string
  | SetParam string
  | CreatePlot string
  | CopyPlot
  | InstallPlot
  | PrepareFigure
  | SetupPlots
  | CanvasDraw
  | CopyParamDict
  | SelectDataset nat
  | SaveFigure string
  | SetSliderValue nat

datatype event =
    ProgressUpdate string
  | MultiProgress
  | Finished bool
  | FinishedMulti bool string
  | Logged logrec
  | Called call
  | TracebackPrinted string string

datatype action =
    Checkpoint string
  | MultiCheckpoint int int
  | LogCall logrec
  | Call call
  | Raise string string
  | StopProcess

text \<open>
  The worker (\<open>_isRunning\<close>, \<open>oldMessage\<close>), the cancel button of the progress dialog,
  the entries \<open>CurrentDataSet\<close> and \<open>CurrentPlotWindow\<close> of the parameter store (as
  indices into the series; every dataset of a series has a plot window of its own), the
  plot windows, the local variable \<open>plot\<close> of the running plot function, and everything
  observable the run has done so far, in order.
\<close>

record gui =
  isRunning :: bool
  oldMessage :: string
  cancelButton :: bool
  CurrentDataSet :: nat
  CurrentPlotWindow :: nat
  windows :: "nat \<Rightarrow> plot_window"
  plotvar :: "plotobj option"
  events :: "event list"

text \<open>
  What the libraries do is not part of the program: \<open>lib c n\<close> is the exception (type
  name and text) that call \<open>c\<close> raises when the current dataset is number \<open>n\<close>, if it
  raises one.
\<close>

type_synonym lib = "call \<Rightarrow> nat \<Rightarrow> (string \<times> string) option"

definition emit :: "event \<Rightarrow> gui \<Rightarrow> gui" where
  "emit e s = s\<lparr>events := events s @ [e]\<rparr>"

text \<open>
  \<^verbatim>\<open>
  def emitStatus(worker, message):
      if worker is None:
          return
      if worker._isRunning:
          GUILogger.debug(message)
          worker.progressUpdate.emit(message)
          worker.oldMessage = message
      else:
          raise WorkingException(f"You cancelled the plotting process \
                                 while <b>{worker.oldMessage.lower()}.</b>")
  \<close>
  The runs modelled here go through a worker, so \<open>worker\<close> is not \<open>None\<close>. The
  continuation line of the f-string keeps its 31 leading blanks.
\<close>

definition emitStatus :: "string \<Rightarrow> gui \<Rightarrow> exn + gui" where
  "emitStatus message s =
     (if isRunning s then
        Inr ((emit (ProgressUpdate message) (emit (Logged (LogDebug message)) s))
               \<lparr>oldMessage := message\<rparr>)
      else
        Inl (WorkingException
          [''You cancelled the plotting process '' @ replicate 31 CHR '' '' @
           ''while <b>'' @ lower (oldMessage s) @ ''.</b>'']))"

text \<open>
  \<^verbatim>\<open>
  def emitMultiStatus(worker, currentNumber, plotNumber):
      if worker is None:
          return
      if worker._isRunning:
          worker.multiProgress.emit()
      else:
          raise WorkingException(f"You cancelled the plotting process while \
                                 <b>producing plot {currentNumber}/{plotNumber}</b>.")
  \<close>
\<close>

definition emitMultiStatus :: "int \<Rightarrow> int \<Rightarrow> gui \<Rightarrow> exn + gui" where
  "emitMultiStatus currentNumber plotNumber s =
     (if isRunning s then Inr (emit MultiProgress s)
      else
        Inl (WorkingException
          [''You cancelled the plotting process while '' @ replicate 31 CHR '' '' @
           ''<b>producing plot '' @ str_int currentNumber @ ''/'' @ str_int plotNumber @
           ''</b>.'']))"

text \<open>
  \<^verbatim>\<open>
  def stopProcess(self):
      self.infoLabel.setText(...)
      self.cancelButton.setDisabled(True)
      plotWindow = self.parent().Param_Dict["CurrentPlotWindow"]
      plotWindow.restoreSettings.setDisabled(True)
      plotWindow.writeFileButton.setDisabled(True)
      plotWindow.externalWindowButton.setDisabled(True)
      self.parent().progressWorker._isRunning = False
  \<close>
\<close>

definition stopProcess :: "gui \<Rightarrow> gui" where
  "stopProcess s =
     (let plotWindow = windows s (CurrentPlotWindow s)
      in s\<lparr>cancelButton := False,
           windows := (windows s)(CurrentPlotWindow s :=
             plotWindow\<lparr>restoreSettings := False, writeFileButton := False,
               externalWindowButton := False\<rparr>),
           isRunning := False\<rparr>)"

text \<open>Updating the current plot window.\<close>

definition on_window :: "(plot_window \<Rightarrow> plot_window) \<Rightarrow> gui \<Rightarrow> gui" where
  "on_window f s = s\<lparr>windows := (windows s)(CurrentPlotWindow s := f (windows s (CurrentPlotWindow s)))\<rparr>"

text \<open>
  The effect of a call that returns. The calls with an effect on the modelled state:
  \<^item> \<open>CreatePlot name\<close>: \<open>plot = yt.name(ds, ...)\<close> in a plot function;
  \<^item> \<open>InstallPlot\<close>: \<open>self.plot = plot\<close> in \<open>startPlot\<close>;
  \<^item> \<open>PrepareFigure\<close>: \<open>self.prepareFigure()\<close>, which clears the figure, resets
    \<open>hasProfile\<close> and adds fresh axes;
  \<^item> \<open>SetupPlots\<close>: \<open>plot._setup_plots()\<close> in \<open>makePlot\<close>, which draws the plot into
    the axes handed to it;
  \<^item> \<open>CanvasDraw\<close>: \<open>self.canvas.draw()\<close>;
  \<^item> \<open>CopyParamDict\<close>: \<open>self.copyParamDict(Param_Dict)\<close>, which stores the copy of
    the parameters and enables the toolbar and the three buttons (the windows of the
    main application are not external);
  \<^item> \<open>SelectDataset j\<close>: \<open>getSliderInput(value=j, seriesEval=True)\<close>, which hides the
    current plot window and makes the window and the dataset number \<open>j\<close> current.
\<close>

fun perform :: "call \<Rightarrow> gui \<Rightarrow> gui" where
  "perform (CreatePlot name) s = s\<lparr>plotvar := Some (PlotObj name (CurrentDataSet s))\<rparr>"
| "perform InstallPlot s = on_window (\<lambda>w. w\<lparr>plot := plotvar s\<rparr>) s"
| "perform PrepareFigure s = on_window (\<lambda>w. w\<lparr>figure := EmptyAxes, hasProfile := False\<rparr>) s"
| "perform SetupPlots s =
     on_window (\<lambda>w. w\<lparr>figure := (case plot w of None \<Rightarrow> figure w | Some p \<Rightarrow> Drawing p)\<rparr>) s"
| "perform CanvasDraw s = on_window (\<lambda>w. w\<lparr>canvas := figure w\<rparr>) s"
| "perform CopyParamDict s =
     on_window (\<lambda>w. w\<lparr>stored_params := plot w, restoreSettings := True,
       writeFileButton := True, externalWindowButton := True\<rparr>) s"
| "perform (SelectDataset j) s =
     (on_window (\<lambda>w. w\<lparr>visible := True\<rparr>)
        ((on_window (\<lambda>w. w\<lparr>visible := False\<rparr>) s)\<lparr>CurrentPlotWindow := j\<rparr>))
       \<lparr>CurrentDataSet := j\<rparr>"
| "perform c s = s"

text \<open>One action. A call that raises has no effect; one that returns is recorded.\<close>

fun exec :: "lib \<Rightarrow> action \<Rightarrow> gui \<Rightarrow> exn + gui" where
  "exec lib (Checkpoint message) s = emitStatus message s"
| "exec lib (MultiCheckpoint currentNumber plotNumber) s = emitMultiStatus currentNumber plotNumber s"
| "exec lib (LogCall r) s = Inr (emit (Logged r) s)"
| "exec lib (Call c) s =
     (case lib c (CurrentDataSet s) of
        Some (name, msg) \<Rightarrow> Inl (Exception name msg)
      | None \<Rightarrow> Inr (emit (Called c) (perform c s)))"
| "exec lib (Raise name msg) s = Inl (Exception name msg)"
| "exec lib StopProcess s = Inr (stopProcess s)"

text \<open>
  A run executes the actions in order and stops at the first exception, which it returns
  together with the state reached.
\<close>

fun run :: "lib \<Rightarrow> action list \<Rightarrow> gui \<Rightarrow> exn option \<times> gui" where
  "run lib [] s = (None, s)"
| "run lib (a # as) s =
     (case exec lib a s of
        Inl e \<Rightarrow> (Some e, s)
      | Inr s' \<Rightarrow> run lib as s')"

subsection \<open>The plot window methods and the plot functions\<close>

text \<open>
  The entries of the parameter store that decide which statements a plot function
  executes.
\<close>

record settings =
  PlotMode :: string
  DimMode :: string
  NormVecMode :: string
  DomainDiv :: bool
  ParticlePlot :: bool
  WeightFieldNone :: bool

text \<open>
  \<open>PlotWindow.makePlot\<close>: the axes are handed to yt, then the checkpoint, then
  \<open>_setup_plots\<close>, the axis cosmetics of the mode, two \<open>canvas.draw()\<close> and
  \<open>copyParamDict\<close>.
\<close>

definition makePlot :: "settings \<Rightarrow> nat \<Rightarrow> action list" where
  "makePlot P d =
     [Call (Library ''plot.plots[field].axes = self.ax'')] @
     (if d = 3 then [Call (Library ''plot.plots[field].cax = self.cax'')] else []) @
     [Checkpoint ''Drawing plot onto the canvas'',
      Call SetupPlots,
      Call (Library ''axes settings of the mode''),
      Call CanvasDraw,
      Call CanvasDraw,
      Call CopyParamDict]"

text \<open>
  \<^verbatim>\<open>
  def startPlot(self, plot, Param_Dict, worker=None):
      emitStatus(worker, "Starting the plot")
      self.plot = plot
      self.prepareFigure()
      if Param_Dict["DimMode"] == "2D":
          divider = make_axes_locatable(self.ax)
          self.cax = divider.append_axes("right", size="5%", pad=0.05)
          self.makePlot(plot, Param_Dict, 3, worker)
      else:
          self.makePlot(plot, Param_Dict, 2, worker)
  \<close>
\<close>

definition startPlot :: "settings \<Rightarrow> action list" where
  "startPlot P =
     [Checkpoint ''Starting the plot'', Call InstallPlot, Call PrepareFigure] @
     (if DimMode P = ''2D''
      then Call (Library ''make_axes_locatable, append_axes'') # makePlot P 3
      else makePlot P 2)"

text \<open>\<open>finallyDrawPlot\<close>: copy the plot and start it on the current plot window.\<close>

definition finallyDrawPlot :: "settings \<Rightarrow> action list" where
  "finallyDrawPlot P = Call CopyPlot # startPlot P"

definition SlicePlot :: "settings \<Rightarrow> action list" where
  "SlicePlot P =
     [Call (Library ''yt.YTQuantity''),
      Call (CreatePlot (if NormVecMode P = ''Axis-Aligned''
                        then ''AxisAlignedSlicePlot'' else ''OffAxisSlicePlot'')),
      Checkpoint ''Setting slice plot modifications'',
      Call (Library ''setAxisSettings''),
      Call (Library ''plot.zoom''),
      Checkpoint ''Annotating the slice plot'',
      Call (Library ''annotatePlot'')] @
     finallyDrawPlot P"

definition ProjectionPlot :: "settings \<Rightarrow> action list" where
  "ProjectionPlot P =
     (if DomainDiv P then [Call (Library ''ds.add_field'')] else []) @
     [Call (Library ''yt.YTQuantity''),
      Call (CreatePlot (if ParticlePlot P then ''ParticleProjectionPlot''
                        else if NormVecMode P = ''Axis-Aligned'' then ''ProjectionPlot''
                        else ''OffAxisProjectionPlot'')),
      Checkpoint ''Setting projection plot modifications'',
      Call (Library ''setAxisSettings''),
      Call (Library ''plot.zoom''),
      Checkpoint ''Annotating the projection plot'',
      Call (Library ''annotatePlot'')] @
     finallyDrawPlot P"

definition LinePlot :: "settings \<Rightarrow> action list" where
  "LinePlot P =
     [Call (Library ''yt.units.YTQuantity''),
      Call (CreatePlot ''LinePlot''),
      Checkpoint ''Setting line plot modifications'',
      Call (Library ''plot.annotate_legend''),
      Call (Library ''setAxisSettings''),
      Call (Library ''plot.set_x_unit''),
      Checkpoint ''Annotating the line plot'',
      Call (Library ''plot.annotate_title'')] @
     finallyDrawPlot P"

definition PhasePlot :: "settings \<Rightarrow> action list" where
  "PhasePlot P =
     (if WeightFieldNone P
      then [LogCall (LogWarning (''Having <font color=\"DarkViolet\">None</font> as the '' @
              ''weight field just accumulates, so the extrema might be inaccurate.''))]
      else []) @
     [Call (Library ''ds.all_data''),
      Call (CreatePlot (if ParticlePlot P then ''ParticlePhasePlot'' else ''PhasePlot'')),
      Checkpoint ''Setting phase plot modifications'',
      Call (Library ''setAxisSettings''),
      Call (Library ''setAxisSettings''),
      Call (Library ''setAxisSettings''),
      Checkpoint ''Annotating the phase plot'',
      Call (Library ''plot.annotate_title'')] @
     finallyDrawPlot P"

text \<open>
  \<open>eval(f"splot.{mode}Plot(Param_Dict, worker)")\<close>. The actions of \<open>ProfilePlot\<close>
  depend on the data of the series (one checkpoint per dataset it evaluates); they are
  the parameter \<open>profile\<close>. A mode without a plot function makes \<open>eval\<close> raise.
\<close>

definition plot_function :: "settings \<Rightarrow> action list \<Rightarrow> action list" where
  "plot_function P profile =
     (if PlotMode P = ''Slice'' then SlicePlot P
      else if PlotMode P = ''Projection'' then ProjectionPlot P
      else if PlotMode P = ''Line'' then LinePlot P
      else if PlotMode P = ''Phase'' then PhasePlot P
      else if PlotMode P = ''Profile'' then profile
      else [Raise ''AttributeError''
              (''module 'simgui_modules.plots' has no attribute '' @ [CHR 0x27] @ PlotMode P @
               ''Plot'' @ [CHR 0x27])])"

subsection \<open>The evaluation functions\<close>

text \<open>
  \<^verbatim>\<open>
  def evaluateSingle(Param_Dict, worker):
      mode = Param_Dict["PlotMode"]
      sut.emitStatus(worker, f"Creating the initial {mode.lower()} plot")
      GUILogger.log(29, f"Producing the requested {mode.lower()} plot...")
      Param_Dict["oldGridUnit"] = Param_Dict["GridUnit"]
      eval(f"splot.{mode}Plot(Param_Dict, worker)")
      sut.emitStatus(worker, "Finishing")
  \<close>
\<close>

definition evaluateSingle :: "settings \<Rightarrow> action list \<Rightarrow> action list" where
  "evaluateSingle P profile =
     [Checkpoint (''Creating the initial '' @ lower (PlotMode P) @ '' plot''),
      LogCall (Log29 (''Producing the requested '' @ lower (PlotMode P) @ '' plot...'')),
      Call (SetParam ''oldGridUnit'')] @
     plot_function P profile @
     [Checkpoint ''Finishing'']"

text \<open>\<open>Request_Dict\<close>, as \<open>PlotAllDialog.applyPressed\<close> builds it.\<close>

record request =
  OnlyEvery :: int
  Length :: nat
  MakeMovie :: bool
  PlotNumber :: int
  Directory :: string




subsection \<open>The workers' entry points\<close>

text \<open>
  The cancel button is handled on the UI thread after the worker has done its first
  \<open>n\<close> actions.
\<close>

definition cancelled_after :: "nat \<Rightarrow> action list \<Rightarrow> action list" where
  "cancelled_after n acts = take n acts @ StopProcess # drop n acts"

text \<open>
  \<^verbatim>\<open>
  def plot(self):
      try:
          evaluateSingle(self.Param_Dict, self)
      except sut.WorkingException as e:
          GUILogger.error(str(e.args[0]))
      except Exception as e:
          traceback.print_exc()
          GUILogger.exception("A yt-internal exception occured:<br><b><font color"
                              f'="DarkRed">{type(e).__name__}:</font><br>'
                              f"{e}</b>")
          GUILogger.log(29, "I've printed the traceback for you.")
          self._isRunning = False
      self.finished.emit(self._isRunning)
  \<close>
  The handlers, applied to the outcome of the evaluation: an exception raised inside a
  handler (the subscript \<open>e.args[0]\<close> of an exception without arguments) leaves \<open>plot\<close>.
\<close>

definition handlers :: "exn option \<times> gui \<Rightarrow> exn + gui" where
  "handlers r =
     (case r of
        (None, s) \<Rightarrow> Inr s
      | (Some (WorkingException args), s) \<Rightarrow>
          (case args of
             [] \<Rightarrow> Inl (Exception ''IndexError'' ''tuple index out of range'')
           | a # _ \<Rightarrow> Inr (emit (Logged (LogError a)) s))
      | (Some (Exception name msg), s) \<Rightarrow>
          Inr ((emit (Logged (Log29 ''I've printed the traceback for you.''))
               (emit (Logged (LogException
                  (''A yt-internal exception occured:<br><b><font color=\"DarkRed\">'' @ name @
                   '':</font><br>'' @ msg @ ''</b>'')))
               (emit (TracebackPrinted name msg) s)))
               \<lparr>isRunning := False\<rparr>))"

definition PlotSingleWorker_plot :: "lib \<Rightarrow> action list \<Rightarrow> gui \<Rightarrow> exn + gui" where
  "PlotSingleWorker_plot lib evaluation s =
     (case handlers (run lib evaluation s) of
        Inl e \<Rightarrow> Inl e
      | Inr s' \<Rightarrow> Inr (emit (Finished (isRunning s')) s'))"

text \<open>
  \<open>PlotMultipleWorker.plot\<close> has the same handlers and ends with
  \<open>self.finished.emit(self._isRunning, self.Request_Dict["Directory"])\<close>.
\<close>

definition PlotMultipleWorker_plot :: "lib \<Rightarrow> request \<Rightarrow> action list \<Rightarrow> gui \<Rightarrow> exn + gui" where
  "PlotMultipleWorker_plot lib R evaluation s =
     (case handlers (run lib evaluation s) of
        Inl e \<Rightarrow> Inl e
      | Inr s' \<Rightarrow> Inr (emit (FinishedMulti (isRunning s') (Directory R)) s'))"

text \<open>A window as \<open>PlotWindow.__init__\<close> leaves it, and a fresh worker at the start of a run.\<close>

definition new_window :: plot_window where
  "new_window = \<lparr>plot = None, figure = Blank, canvas = Blank, hasProfile = False,
     stored_params = None, restoreSettings = False, writeFileButton = False,
     externalWindowButton = False, visible = True\<rparr>"

definition start_gui :: "(nat \<Rightarrow> plot_window) \<Rightarrow> gui" where
  "start_gui ws = \<lparr>isRunning = True, oldMessage = ''Starting up'', cancelButton = True,
     CurrentDataSet = 0, CurrentPlotWindow = 0, windows = ws, plotvar = None, events = []\<rparr>"

text \<open>Libraries that never raise, and the settings of an axis-aligned slice plot.\<close>

definition lib_ok :: lib where
  "lib_ok c n = None"

definition slice_settings :: settings where
  "slice_settings = \<lparr>PlotMode = ''Slice'', DimMode = ''2D'', NormVecMode = ''Axis-Aligned'',
     DomainDiv = False, ParticlePlot = False, WeightFieldNone = True\<rparr>"

subsection \<open>Observations on actions and events\<close>

text \<open>The named progress checkpoints among the actions.\<close>

fun is_checkpoint :: "action \<Rightarrow> bool" where
  "is_checkpoint (Checkpoint message) = True"
| "is_checkpoint (MultiCheckpoint currentNumber plotNumber) = True"
| "is_checkpoint a = False"

text \<open>The progress updates among the events: the signals the checkpoints emit.\<close>

fun is_progress :: "event \<Rightarrow> bool" where
  "is_progress (ProgressUpdate message) = True"
| "is_progress MultiProgress = True"
| "is_progress e = False"

text \<open>The progress updates a list of actions emits when every checkpoint in it emits.\<close>

fun progress_of :: "action \<Rightarrow> event list" where
  "progress_of (Checkpoint message) = [ProgressUpdate message]"
| "progress_of (MultiCheckpoint currentNumber plotNumber) = [MultiProgress]"
| "progress_of a = []"

text \<open>
  What a plot window shows and remembers: its plot object, figure, rendered canvas,
  \<open>hasProfile\<close> and stored parameters. The calls that write one of these.
\<close>

definition shown :: "plot_window \<Rightarrow> plotobj option \<times> figure \<times> figure \<times> bool \<times> plotobj option" where
  "shown w = (plot w, figure w, canvas w, hasProfile w, stored_params w)"






text \<open>Libraries in which drawing the plot fails, as yt does for a field it cannot find.\<close>

definition lib_setup_fails :: lib where
  "lib_setup_fails c n =
     (if c = SetupPlots then Some (''YTFieldNotFound'', ''Could not find field dens'') else None)"

text \<open>A plot window that shows an earlier plot.\<close>

definition old_window :: plot_window where
  "old_window = \<lparr>plot = Some (PlotObj ''PhasePlot'' 0), figure = Drawing (PlotObj ''PhasePlot'' 0),
     canvas = Drawing (PlotObj ''PhasePlot'' 0), hasProfile = False,
     stored_params = Some (PlotObj ''PhasePlot'' 0), restoreSettings = True,
     writeFileButton = True, externalWindowButton = True, visible = True\<rparr>"

text \<open>A request for every second dataset of a series of five, with movie frames.\<close>

definition demo_request :: request where
  "demo_request = \<lparr>OnlyEvery = 2, Length = 5, MakeMovie = True, PlotNumber = 3,
     Directory = ''/data/Sliceplots_03_11_2019_10_00_00''\<rparr>"



section \<open>GUFY.py: opening a file or a series\<close>

text \<open>
  What the user gets to see: message boxes (\<open>sut.alertUser\<close>), logger records, and the
  texts of the status bar labels.
\<close>

datatype feedback = AlertUser string | Logger logrec | StatusText string string

record session =
  Param_Dict :: store
  shown_feedback :: "feedback list"

definition tell :: "feedback \<Rightarrow> session \<Rightarrow> session" where
  "tell f s = s\<lparr>shown_feedback := shown_feedback s @ [f]\<rparr>"

definition set_param :: "string \<Rightarrow> pyval \<Rightarrow> session \<Rightarrow> session" where
  "set_param k v s = s\<lparr>Param_Dict := (Param_Dict s)(k \<mapsto> v)\<rparr>"

text \<open>The message boxes and the warnings among the feedback.\<close>

fun alert_text :: "feedback \<Rightarrow> string list" where
  "alert_text (AlertUser m) = [m]"
| "alert_text f = []"

fun warning_text :: "feedback \<Rightarrow> string list" where
  "warning_text (Logger (LogWarning m)) = [m]"
| "warning_text f = []"

definition alerts :: "session \<Rightarrow> string list" where
  "alerts s = concat (map alert_text (shown_feedback s))"

definition warnings :: "session \<Rightarrow> string list" where
  "warnings s = concat (map warning_text (shown_feedback s))"






text \<open>
  \<open>askSeriesName\<close>: the series name the user entered and whether the dialog was
  accepted.
\<close>

definition askSeriesName :: "string \<times> bool \<Rightarrow> session \<Rightarrow> session" where
  "askSeriesName answer s =
     (case answer of
        (seriesname, ok) \<Rightarrow>
          if ok then tell (StatusText ''Series'' (''Series:'' @ seriesname))
                       (set_param ''Seriesname'' (Str seriesname) s)
          else tell (StatusText ''Series'' ''No series selected'')
                 (set_param ''Seriesname'' (Str ''No series selected'') s))"







section \<open>Properties of the helper functions\<close>





lemma lookups_Some: "map P ks = map Some vs \<Longrightarrow> lookups P ks = Inr vs"
proof (induction ks arbitrary: vs)
  case Nil
  then show ?case by simp
next
  case (Cons k ks)
  then obtain v vs' where vs: "vs = v # vs'" by (cases vs) auto
  with Cons.prems have "P k = Some v" "map P ks = map Some vs'" by auto
  with Cons.IH vs show ?case by (simp add: lookup_def bindE_def)
qed

lemma rotate3:
  "rotate 0 [a, b, c] = [a, b, c]"
  "rotate 1 [a, b, c] = [b, c, a]"
  "rotate 2 [a, b, c] = [c, a, b]"
  by (simp_all add: numeral_2_eq_2)

lemma store_back3:
  "store_back [a, b, c] [d, e, f] [0, Suc 0, 2] P =
     Inr (P(''XLStart'' \<mapsto> a, ''XLEnd'' \<mapsto> d, ''YLStart'' \<mapsto> b, ''YLEnd'' \<mapsto> e,
            ''ZLStart'' \<mapsto> c, ''ZLEnd'' \<mapsto> f))"
  by (simp add: nth_py_def starts_def ends_def bindE_def)

lemma shuffleCoords_result:
  assumes "lookups P starts = Inr [s0, s1, s2]" and "lookups P ends = Inr [e0, e1, e2]"
    and "lookup P ''NAxis'' = Inr n"
  shows "shuffleCoords P =
     (if n = Str ''x'' then
        Inr (P(''XLStart'' \<mapsto> s2, ''XLEnd'' \<mapsto> e2, ''YLStart'' \<mapsto> s0, ''YLEnd'' \<mapsto> e0,
               ''ZLStart'' \<mapsto> s1, ''ZLEnd'' \<mapsto> e1), [])
      else if n = Str ''y'' then
        Inr (P(''XLStart'' \<mapsto> s1, ''XLEnd'' \<mapsto> e1, ''YLStart'' \<mapsto> s2, ''YLEnd'' \<mapsto> e2,
               ''ZLStart'' \<mapsto> s0, ''ZLEnd'' \<mapsto> e0), [])
      else
        Inr (P(''XLStart'' \<mapsto> s0, ''XLEnd'' \<mapsto> e0, ''YLStart'' \<mapsto> s1, ''YLEnd'' \<mapsto> e1,
               ''ZLStart'' \<mapsto> s2, ''ZLEnd'' \<mapsto> e2),
             if n = Str ''z'' then []
             else [LogError ''Something went wrong when transferring the coordinates to LinePlot'']))"
  unfolding shuffleCoords_def assms
  by (simp add: bindE_def pop0_append_def store_back3 del: store_back.simps)

text \<open>
  Claim C9. \<open>shuffleCoords\<close> applies the same cyclic left rotation to the start triple
  and to the end triple of the parameter store: two rotations when \<open>NAxis\<close> is \<open>x\<close>, one
  when it is \<open>y\<close>, none when it is \<open>z\<close> or any other value (which is logged as an
  error). The multiset of the stored values of each triple is preserved and no other key
  of the store changes.
\<close>

theorem shuffleCoords_rotates:
  assumes "map P starts = map Some sv" and "map P ends = map Some ev"
    and "P ''NAxis'' = Some n"
    and "k = (if n = Str ''x'' then 2 else if n = Str ''y'' then 1 else 0)"
  shows "\<exists>P' lg. shuffleCoords P = Inr (P', lg) \<and>
     map P' starts = map Some (rotate k sv) \<and>
     map P' ends = map Some (rotate k ev) \<and>
     mset (map P' starts) = mset (map P starts) \<and>
     mset (map P' ends) = mset (map P ends) \<and>
     (\<forall>key. key \<notin> set starts \<union> set ends \<longrightarrow> P' key = P key) \<and>
     (lg = [] \<longleftrightarrow> n \<in> {Str ''x'', Str ''y'', Str ''z''})"
proof -
  from assms(1) have "length sv = 3"
    using length_map[of P starts] length_map[of Some sv] by (simp add: starts_def)
  then obtain s0 s1 s2 where sv: "sv = [s0, s1, s2]"
    by (cases sv; cases "tl sv"; cases "tl (tl sv)") auto
  from assms(2) have "length ev = 3"
    using length_map[of P ends] length_map[of Some ev] by (simp add: ends_def)
  then obtain e0 e1 e2 where ev: "ev = [e0, e1, e2]"
    by (cases ev; cases "tl ev"; cases "tl (tl ev)") auto
  have ls: "lookups P starts = Inr [s0, s1, s2]" using lookups_Some[OF assms(1)] sv by simp
  have le: "lookups P ends = Inr [e0, e1, e2]" using lookups_Some[OF assms(2)] ev by simp
  have ln: "lookup P ''NAxis'' = Inr n" using assms(3) by (simp add: lookup_def)
  have ps: "map P starts = [Some s0, Some s1, Some s2]" using assms(1) sv by simp
  have pe: "map P ends = [Some e0, Some e1, Some e2]" using assms(2) ev by simp
  note res = shuffleCoords_result [OF ls le ln]
  consider (x) "n = Str ''x''" | (y) "n = Str ''y''" | (other) "n \<noteq> Str ''x''" "n \<noteq> Str ''y''"
    by blast
  then show ?thesis
  proof cases
    case x
    then have k: "k = 2" using assms(4) by simp
    show ?thesis unfolding res k sv ev ps pe rotate3 using x
      by (simp add: starts_def ends_def)
  next
    case y
    then have k: "k = 1" using assms(4) by simp
    show ?thesis unfolding res k sv ev ps pe rotate3 using y
      by (simp add: starts_def ends_def)
  next
    case other
    then have k: "k = 0" using assms(4) by simp
    show ?thesis unfolding res k sv ev ps pe rotate3 using other ps pe
      by (simp add: starts_def ends_def)
  qed
qed

theorem shuffleCoords_rotates_witness:
  "\<exists>P' lg. shuffleCoords demo_store = Inr (P', lg) \<and>
     map P' starts = [Some (Num 3), Some (Num 1), Some (Num 2)] \<and>
     map P' ends = [Some (Num 6), Some (Num 4), Some (Num 5)] \<and>
     P' ''PlotMode'' = Some (Str ''Slice'') \<and> lg = []"
proof -
  have a: "map demo_store starts = map Some [Num 1, Num 2, Num 3]"
    by (simp add: demo_store_def starts_def)
  have b: "map demo_store ends = map Some [Num 4, Num 5, Num 6]"
    by (simp add: demo_store_def ends_def)
  have c: "demo_store ''NAxis'' = Some (Str ''x'')"
    by (simp add: demo_store_def)
  have d: "(2::nat) = (if Str ''x'' = Str ''x'' then 2 else if Str ''x'' = Str ''y'' then 1 else 0)"
    by simp
  from shuffleCoords_rotates [OF a b c d]
  obtain P' lg where r: "shuffleCoords demo_store = Inr (P', lg)"
    "map P' starts = map Some (rotate 2 [Num 1, Num 2, Num 3])"
    "map P' ends = map Some (rotate 2 [Num 4, Num 5, Num 6])"
    "\<forall>key. key \<notin> set starts \<union> set ends \<longrightarrow> P' key = demo_store key"
    "lg = [] \<longleftrightarrow> Str ''x'' \<in> {Str ''x'', Str ''y'', Str ''z''}"
    by blast
  have "''PlotMode'' \<notin> set starts \<union> set ends" by (simp add: starts_def ends_def)
  with r(4) have "P' ''PlotMode'' = demo_store ''PlotMode''" by blast
  then have pm: "P' ''PlotMode'' = Some (Str ''Slice'')" by (simp add: demo_store_def)
  from r(5) have "lg = []" by simp
  with r(1,2,3) pm show ?thesis by (simp add: rotate3)
qed

section \<open>The configuration round trip\<close>



















section \<open>Runs of a worker\<close>

lemma run_append:
  "run lib (xs @ ys) s =
     (case run lib xs s of (None, s1) \<Rightarrow> run lib ys s1 | (Some e, s1) \<Rightarrow> (Some e, s1))"
  by (induction xs arbitrary: s) (auto split: sum.splits)

lemma run_append_None:
  "run lib xs s = (None, s1) \<Longrightarrow> run lib (xs @ ys) s = run lib ys s1"
  by (simp add: run_append)

lemma run_append_Some:
  "run lib xs s = (Some e, s1) \<Longrightarrow> run lib (xs @ ys) s = (Some e, s1)"
  by (simp add: run_append)

lemma on_window_simps [simp]:
  "isRunning (on_window f s) = isRunning s"
  "events (on_window f s) = events s"
  "oldMessage (on_window f s) = oldMessage s"
  "CurrentDataSet (on_window f s) = CurrentDataSet s"
  "CurrentPlotWindow (on_window f s) = CurrentPlotWindow s"
  by (simp_all add: on_window_def)

lemma perform_isRunning [simp]: "isRunning (perform c s) = isRunning s"
  by (cases c) simp_all

lemma perform_events [simp]: "events (perform c s) = events s"
  by (cases c) simp_all

lemma emit_simps [simp]:
  "isRunning (emit e s) = isRunning s"
  "events (emit e s) = events s @ [e]"
  "windows (emit e s) = windows s"
  "CurrentPlotWindow (emit e s) = CurrentPlotWindow s"
  "CurrentDataSet (emit e s) = CurrentDataSet s"
  "oldMessage (emit e s) = oldMessage s"
  by (simp_all add: emit_def)

text \<open>Only \<open>stopProcess\<close> clears the flag.\<close>

lemma exec_isRunning:
  "exec lib a s = Inr s' \<Longrightarrow> a \<noteq> StopProcess \<Longrightarrow> isRunning s' = isRunning s"
  by (cases a) (auto simp: emitStatus_def emitMultiStatus_def split: if_splits option.splits)

lemma exec_stopped_events:
  "exec lib a s = Inr s' \<Longrightarrow> \<not> is_checkpoint a \<Longrightarrow>
     filter is_progress (events s') = filter is_progress (events s)"
  by (cases a) (auto simp: stopProcess_def Let_def split: option.splits)

lemma exec_running_checkpoint:
  "isRunning s \<Longrightarrow> is_checkpoint a \<Longrightarrow>
     \<exists>s'. exec lib a s = Inr s' \<and> isRunning s' \<and>
       filter is_progress (events s') = filter is_progress (events s) @ progress_of a"
  by (cases a) (auto simp: emitStatus_def emitMultiStatus_def)

lemma exec_cancelled_checkpoint:
  "\<not> isRunning s \<Longrightarrow> is_checkpoint a \<Longrightarrow> \<exists>msg. exec lib a s = Inl (WorkingException [msg])"
  by (cases a) (auto simp: emitStatus_def emitMultiStatus_def)

lemma stopProcess_simps [simp]:
  "isRunning (stopProcess s) = False"
  "events (stopProcess s) = events s"
  by (simp_all add: stopProcess_def Let_def)

text \<open>A run without a cancel request keeps the flag, and its checkpoints all emit.\<close>

lemma run_running:
  "run lib acts s = (r, s') \<Longrightarrow> StopProcess \<notin> set acts \<Longrightarrow> isRunning s \<Longrightarrow> isRunning s'"
proof (induction acts arbitrary: s)
  case Nil
  then show ?case by simp
next
  case (Cons a acts)
  show ?case
  proof (cases "exec lib a s")
    case (Inl e)
    with Cons.prems show ?thesis by simp
  next
    case (Inr s1)
    with Cons.prems have "isRunning s1" using exec_isRunning [OF Inr] by auto
    with Cons Inr show ?thesis by simp
  qed
qed

lemma run_progress:
  "run lib acts s = (None, s') \<Longrightarrow> StopProcess \<notin> set acts \<Longrightarrow> isRunning s \<Longrightarrow>
     filter is_progress (events s') = filter is_progress (events s) @ concat (map progress_of acts)"
proof (induction acts arbitrary: s)
  case Nil
  then show ?case by simp
next
  case (Cons a acts)
  from Cons.prems(1) obtain s1 where s1: "exec lib a s = Inr s1" "run lib acts s1 = (None, s')"
    by (auto split: sum.splits)
  have run1: "isRunning s1" using exec_isRunning [OF s1(1)] Cons.prems by auto
  have ev1: "filter is_progress (events s1) = filter is_progress (events s) @ progress_of a"
  proof (cases "is_checkpoint a")
    case True
    from exec_running_checkpoint [OF Cons.prems(3) True, of lib] s1(1) show ?thesis by auto
  next
    case False
    then have "progress_of a = []" by (cases a) simp_all
    with exec_stopped_events [OF s1(1) False] show ?thesis by simp
  qed
  from Cons.IH [OF s1(2) _ run1] Cons.prems(2) ev1 show ?case by simp
qed

text \<open>After the cancel request, the actions up to the next checkpoint emit no progress.\<close>

lemma run_segment_progress:
  "run lib acts s = (r, s') \<Longrightarrow> \<forall>a \<in> set acts. \<not> is_checkpoint a \<Longrightarrow>
     filter is_progress (events s') = filter is_progress (events s)"
proof (induction acts arbitrary: s)
  case Nil
  then show ?case by simp
next
  case (Cons a acts)
  show ?case
  proof (cases "exec lib a s")
    case (Inl e)
    with Cons.prems show ?thesis by simp
  next
    case (Inr s1)
    with Cons.prems have "run lib acts s1 = (r, s')" by simp
    from Cons.IH [OF this] Cons.prems(2) exec_stopped_events [OF Inr] show ?thesis by simp
  qed
qed

lemma run_segment_stopped:
  "run lib acts s = (r, s') \<Longrightarrow> StopProcess \<notin> set acts \<Longrightarrow> \<not> isRunning s \<Longrightarrow> \<not> isRunning s'"
proof (induction acts arbitrary: s)
  case Nil
  then show ?case by simp
next
  case (Cons a acts)
  show ?case
  proof (cases "exec lib a s")
    case (Inl e)
    with Cons.prems show ?thesis by simp
  next
    case (Inr s1)
    with Cons.prems have "\<not> isRunning s1" using exec_isRunning [OF Inr] by auto
    with Cons Inr show ?thesis by simp
  qed
qed

text \<open>
  Claim C1. Cancellation is cooperative. Let the cancel request be handled after the
  worker's first \<open>n\<close> actions, none of which failed. Every checkpoint among those
  actions emitted its progress update. After the request the evaluation continues
  through the library calls of the current step (they do not look at the flag) and emits
  no further progress; at the next checkpoint \<open>emitStatus\<close> or \<open>emitMultiStatus\<close> raises
  \<open>WorkingException\<close> and the run stops there; if no checkpoint is left the run ends
  normally. As long as the flag is set, a checkpoint emits its update and returns.
\<close>

theorem cancellation_at_next_checkpoint:
  assumes "StopProcess \<notin> set acts" and "isRunning s"
    and "run lib (take n acts) s = (None, s1)"
    and "run lib (takeWhile (\<lambda>a. \<not> is_checkpoint a) (drop n acts)) (stopProcess s1) = (None, s2)"
  shows "filter is_progress (events s1) =
           filter is_progress (events s) @ concat (map progress_of (take n acts)) \<and>
         filter is_progress (events s2) = filter is_progress (events s1) \<and>
         (case dropWhile (\<lambda>a. \<not> is_checkpoint a) (drop n acts) of
            [] \<Rightarrow> run lib (cancelled_after n acts) s = (None, s2)
          | c # rest \<Rightarrow>
              (\<exists>msg. exec lib c s2 = Inl (WorkingException [msg]) \<and>
                 run lib (cancelled_after n acts) s = (Some (WorkingException [msg]), s2))) \<and>
         (\<forall>c t. is_checkpoint c \<and> isRunning t \<longrightarrow>
            (\<exists>t'. exec lib c t = Inr t' \<and> isRunning t' \<and>
               filter is_progress (events t') = filter is_progress (events t) @ progress_of c))"
proof -
  let ?seg = "takeWhile (\<lambda>a. \<not> is_checkpoint a) (drop n acts)"
  let ?rest = "dropWhile (\<lambda>a. \<not> is_checkpoint a) (drop n acts)"
  have pre: "StopProcess \<notin> set (take n acts)"
    using assms(1) by (meson in_set_takeD)
  have seg: "StopProcess \<notin> set ?seg"
    using assms(1) by (meson in_set_dropD set_takeWhileD)
  have a: "filter is_progress (events s1) =
      filter is_progress (events s) @ concat (map progress_of (take n acts))"
    using run_progress [OF assms(3) pre assms(2)] .
  have b: "filter is_progress (events s2) = filter is_progress (events s1)"
    using run_segment_progress [OF assms(4)] by (auto dest: set_takeWhileD)
  have stopped: "\<not> isRunning s2"
    using run_segment_stopped [OF assms(4) seg] by simp
  have "run lib (cancelled_after n acts) s = run lib (StopProcess # drop n acts) s1"
    unfolding cancelled_after_def using run_append_None [OF assms(3)] .
  also have "\<dots> = run lib (?seg @ ?rest) (stopProcess s1)" by simp
  also have "\<dots> = run lib ?rest s2" using run_append_None [OF assms(4)] .
  finally have r: "run lib (cancelled_after n acts) s = run lib ?rest s2" .
  have c: "case ?rest of
            [] \<Rightarrow> run lib (cancelled_after n acts) s = (None, s2)
          | c # rest \<Rightarrow>
              (\<exists>msg. exec lib c s2 = Inl (WorkingException [msg]) \<and>
                 run lib (cancelled_after n acts) s = (Some (WorkingException [msg]), s2))"
  proof (cases ?rest)
    case Nil
    show ?thesis unfolding Nil using r [unfolded Nil] by simp
  next
    case (Cons c rest)
    then have "is_checkpoint c" using hd_dropWhile [of "\<lambda>a. \<not> is_checkpoint a" "drop n acts"] by auto
    from exec_cancelled_checkpoint [OF stopped this, of lib]
    obtain msg where "exec lib c s2 = Inl (WorkingException [msg])" by blast
    then show ?thesis unfolding Cons using r [unfolded Cons] by simp
  qed
  have d: "\<forall>c t. is_checkpoint c \<and> isRunning t \<longrightarrow>
            (\<exists>t'. exec lib c t = Inr t' \<and> isRunning t' \<and>
               filter is_progress (events t') = filter is_progress (events t) @ progress_of c)"
    using exec_running_checkpoint by blast
  from a b c d show ?thesis by blast
qed

theorem cancellation_at_next_checkpoint_witness:
  "\<exists>msg s2. run lib_ok (cancelled_after 12 (evaluateSingle slice_settings []))
       (start_gui (\<lambda>i. new_window)) = (Some (WorkingException [msg]), s2) \<and>
     filter is_progress (events s2) =
       [ProgressUpdate ''Creating the initial slice plot'',
        ProgressUpdate ''Setting slice plot modifications'',
        ProgressUpdate ''Annotating the slice plot'',
        ProgressUpdate ''Starting the plot'']"
proof -
  let ?acts = "evaluateSingle slice_settings []"
  let ?s = "start_gui (\<lambda>i. new_window)"
  let ?s1 = "snd (run lib_ok (take 12 ?acts) ?s)"
  let ?s2 = "snd (run lib_ok (takeWhile (\<lambda>a. \<not> is_checkpoint a) (drop 12 ?acts)) (stopProcess ?s1))"
  have 1: "StopProcess \<notin> set ?acts" by code_simp
  have 2: "isRunning ?s" by (simp add: start_gui_def)
  have "fst (run lib_ok (take 12 ?acts) ?s) = None" by code_simp
  then have 3: "run lib_ok (take 12 ?acts) ?s = (None, ?s1)" by (simp add: prod_eq_iff)
  have "fst (run lib_ok (takeWhile (\<lambda>a. \<not> is_checkpoint a) (drop 12 ?acts)) (stopProcess ?s1)) = None"
    by code_simp
  then have 4: "run lib_ok (takeWhile (\<lambda>a. \<not> is_checkpoint a) (drop 12 ?acts)) (stopProcess ?s1)
      = (None, ?s2)" by (simp add: prod_eq_iff)
  have 5: "dropWhile (\<lambda>a. \<not> is_checkpoint a) (drop 12 ?acts) =
      [Checkpoint ''Drawing plot onto the canvas'', Call SetupPlots,
       Call (Library ''axes settings of the mode''), Call CanvasDraw, Call CanvasDraw,
       Call CopyParamDict, Checkpoint ''Finishing'']" by code_simp
  have 6: "filter is_progress (events ?s) @ concat (map progress_of (take 12 ?acts)) =
       [ProgressUpdate ''Creating the initial slice plot'',
        ProgressUpdate ''Setting slice plot modifications'',
        ProgressUpdate ''Annotating the slice plot'',
        ProgressUpdate ''Starting the plot'']" by code_simp
  from cancellation_at_next_checkpoint [OF 1 2 3 4] show ?thesis
    unfolding 5 6 by auto
qed

lemma exec_WorkingException:
  "exec lib a s = Inl (WorkingException args) \<Longrightarrow> \<exists>m. args = [m]"
  by (cases a) (auto simp: emitStatus_def emitMultiStatus_def split: if_splits option.splits)

lemma run_WorkingException:
  "run lib acts s = (Some (WorkingException args), s') \<Longrightarrow> \<exists>m. args = [m]"
proof (induction acts arbitrary: s)
  case Nil
  then show ?case by simp
next
  case (Cons a acts)
  show ?case
  proof (cases "exec lib a s")
    case (Inl e)
    with Cons.prems have "e = WorkingException args" by simp
    with Inl exec_WorkingException show ?thesis by blast
  next
    case (Inr s1)
    with Cons show ?thesis by simp
  qed
qed

text \<open>
  Claim C2. Whatever the evaluation inside a worker's \<open>plot\<close> does, \<open>plot\<close> returns
  and emits \<open>finished\<close> last. A \<open>WorkingException\<close> is caught and its message logged as
  an error; any other exception is caught by the generic handler, which prints the
  traceback, logs the exception and a note, and clears \<open>_isRunning\<close>, so that \<open>finished\<close>
  carries \<open>False\<close>. The handlers leave the plot windows as the evaluation left them.
  This holds for \<open>PlotSingleWorker\<close> and for \<open>PlotMultipleWorker\<close>.
\<close>

theorem worker_plot_catches_and_finishes:
  assumes "run lib acts s = (r, s1)"
  shows "\<exists>s' t'. PlotSingleWorker_plot lib acts s = Inr s' \<and>
           PlotMultipleWorker_plot lib R acts s = Inr t' \<and>
           windows s' = windows s1 \<and> windows t' = windows s1 \<and>
           (case r of
              None \<Rightarrow>
                events s' = events s1 @ [Finished (isRunning s1)] \<and>
                events t' = events s1 @ [FinishedMulti (isRunning s1) (Directory R)]
            | Some (WorkingException args) \<Rightarrow>
                (\<exists>m. args = [m] \<and>
                   events s' = events s1 @ [Logged (LogError m), Finished (isRunning s1)] \<and>
                   events t' = events s1 @
                     [Logged (LogError m), FinishedMulti (isRunning s1) (Directory R)])
            | Some (Exception name msg) \<Rightarrow>
                \<not> isRunning s' \<and> \<not> isRunning t' \<and>
                events s' = events s1 @
                  [TracebackPrinted name msg,
                   Logged (LogException
                     (''A yt-internal exception occured:<br><b><font color=\"DarkRed\">'' @ name @
                      '':</font><br>'' @ msg @ ''</b>'')),
                   Logged (Log29 ''I've printed the traceback for you.''),
                   Finished False] \<and>
                events t' = events s1 @
                  [TracebackPrinted name msg,
                   Logged (LogException
                     (''A yt-internal exception occured:<br><b><font color=\"DarkRed\">'' @ name @
                      '':</font><br>'' @ msg @ ''</b>'')),
                   Logged (Log29 ''I've printed the traceback for you.''),
                   FinishedMulti False (Directory R)])"
proof (cases r)
  case None
  with assms show ?thesis
    by (simp add: PlotSingleWorker_plot_def PlotMultipleWorker_plot_def handlers_def emit_def)
next
  case (Some e)
  show ?thesis
  proof (cases e)
    case (WorkingException args)
    with assms Some obtain m where "args = [m]" using run_WorkingException by blast
    with assms Some WorkingException show ?thesis
      by (simp add: PlotSingleWorker_plot_def PlotMultipleWorker_plot_def handlers_def emit_def)
  next
    case (Exception name msg)
    with assms Some show ?thesis
      by (simp add: PlotSingleWorker_plot_def PlotMultipleWorker_plot_def handlers_def emit_def)
  qed
qed

theorem worker_plot_catches_and_finishes_witness:
  "\<exists>s'. PlotSingleWorker_plot lib_setup_fails (evaluateSingle slice_settings [])
            (start_gui (\<lambda>i. old_window)) = Inr s' \<and>
         \<not> isRunning s' \<and> last (events s') = Finished False"
proof -
  let ?acts = "evaluateSingle slice_settings []"
  let ?s = "start_gui (\<lambda>i. old_window)"
  let ?s1 = "snd (run lib_setup_fails ?acts ?s)"
  have "fst (run lib_setup_fails ?acts ?s) =
      Some (Exception ''YTFieldNotFound'' ''Could not find field dens'')" by code_simp
  then have 1: "run lib_setup_fails ?acts ?s =
      (Some (Exception ''YTFieldNotFound'' ''Could not find field dens''), ?s1)"
    by (simp add: prod_eq_iff)
  from worker_plot_catches_and_finishes [OF 1, where R = demo_request] show ?thesis
    by auto
qed

section \<open>The plot window after an aborted run\<close>

lemma on_window_shown:
  "(\<And>w. shown (f w) = shown w) \<Longrightarrow> shown (windows (on_window f s) i) = shown (windows s i)"
  by (simp add: on_window_def)

















section \<open>Series evaluation\<close>





















subsection \<open>The file and series loaders\<close>

lemma tell_simps [simp]:
  "alerts (tell (AlertUser m) s) = alerts s @ [m]"
  "alerts (tell (Logger r) s) = alerts s"
  "alerts (tell (StatusText l t) s) = alerts s"
  "warnings (tell (AlertUser m) s) = warnings s"
  "warnings (tell (Logger (LogWarning m)) s) = warnings s @ [m]"
  "warnings (tell (Logger (LogInfo m)) s) = warnings s"
  "warnings (tell (Logger (Log29 m)) s) = warnings s"
  "warnings (tell (StatusText l t) s) = warnings s"
  "Param_Dict (tell f s) = Param_Dict s"
  by (simp_all add: tell_def alerts_def warnings_def)

lemma set_param_simps [simp]:
  "alerts (set_param k v s) = alerts s"
  "warnings (set_param k v s) = warnings s"
  "Param_Dict (set_param k v s) = (Param_Dict s)(k \<mapsto> v)"
  by (simp_all add: set_param_def alerts_def warnings_def)










lemma askSeriesName_quiet [simp]:
  "alerts (askSeriesName a s) = alerts s" "warnings (askSeriesName a s) = warnings s"
  by (cases a; simp add: askSeriesName_def)+






end
